theory Spec2Isabelle
  imports Main "HOL-Library.AList"
begin

section \<open>Workspace configuration lookup of the Angular CLI (utilities/config.ts)\<close>

text \<open>
  A shallow embedding of \<^verbatim>\<open>packages/angular/cli/utilities/config.ts\<close>.
  A string is a list of characters; for ASCII text a character is both a byte of a
  file and a code unit of a JavaScript string, and the model does not tell the two
  apart. \<^verbatim>\<open>null\<close> and \<^verbatim>\<open>undefined\<close> are \<open>None\<close>, a thrown exception is \<open>Inl\<close> of
  an \<open>error\<close>, the module-level cache and the file store are passed in and returned.
  An asynchronous function runs to its end before the next call begins.
\<close>

subsection \<open>JSON values\<close>

datatype json =
    JNull
  | JBool bool
  | JNum int
  | JStr string
  | JArr "json list"
  | JObj "(string \<times> json) list"

text \<open>\<^verbatim>\<open>isJsonObject(value)\<close>: defined, not null, an object and not an array.\<close>

definition isJsonObject :: "json option \<Rightarrow> bool" where
  "isJsonObject v = (case v of Some (JObj kvs) \<Rightarrow> True | _ \<Rightarrow> False)"

text \<open>Property access \<^verbatim>\<open>source[key]\<close> on a value known to be a JSON object.\<close>

definition obj_get :: "json option \<Rightarrow> string \<Rightarrow> json option" where
  "obj_get source key = (case source of Some (JObj kvs) \<Rightarrow> map_of kvs key | _ \<Rightarrow> None)"

text \<open>JavaScript truthiness of a string: only the empty string is falsy.\<close>

definition truthy :: "string \<Rightarrow> bool" where
  "truthy s = (s \<noteq> [])"

text \<open>\<^verbatim>\<open>a || b\<close> on values that are a string, null or undefined.\<close>

definition or_else :: "string option \<Rightarrow> string option \<Rightarrow> string option" where
  "or_else a b = (case a of Some s \<Rightarrow> if truthy s then Some s else b | None \<Rightarrow> b)"

subsection \<open>Node's \<^verbatim>\<open>path\<close> module, POSIX flavour\<close>

text \<open>
  The \<^verbatim>\<open>path\<close> functions belong to the Node runtime, not to this repository. They
  are written out here after their documented POSIX behaviour so that the functions
  of config.ts can be evaluated; the general theorems about project selection use
  them only through \<open>isInside\<close>.
\<close>

fun split_sep :: "string \<Rightarrow> string \<Rightarrow> string list" where
  "split_sep cur [] = [rev cur]"
| "split_sep cur (c # cs) =
     (if c = CHR ''/'' then rev cur # split_sep [] cs else split_sep (c # cur) cs)"

fun join_sep :: "string list \<Rightarrow> string" where
  "join_sep [] = []"
| "join_sep [s] = s"
| "join_sep (s # t # ss) = s @ CHR ''/'' # join_sep (t # ss)"

text \<open>
  \<^verbatim>\<open>normalizeString(path, allowAboveRoot)\<close> on the segments of a path; \<open>acc\<close> holds
  the segments kept so far, last one first.
\<close>

fun normalizeString :: "bool \<Rightarrow> string list \<Rightarrow> string list \<Rightarrow> string list" where
  "normalizeString allowAboveRoot acc [] = rev acc"
| "normalizeString allowAboveRoot acc (s # ss) =
     (if s = [] \<or> s = ''.'' then normalizeString allowAboveRoot acc ss
      else if s = ''..'' then
        (case acc of
           [] \<Rightarrow> normalizeString allowAboveRoot (if allowAboveRoot then [''..''] else []) ss
         | a # as \<Rightarrow>
             if a \<noteq> ''..'' then normalizeString allowAboveRoot as ss
             else normalizeString allowAboveRoot
                    (if allowAboveRoot then ''..'' # acc else acc) ss)
      else normalizeString allowAboveRoot (s # acc) ss)"

definition path_isAbsolute :: "string \<Rightarrow> bool" where
  "path_isAbsolute p = (case p of [] \<Rightarrow> False | c # cs \<Rightarrow> c = CHR ''/'')"

definition path_normalize :: "string \<Rightarrow> string" where
  "path_normalize p =
     (if p = [] then ''.''
      else
        (let isAbsolute = path_isAbsolute p;
             trailingSeparator = (last p = CHR ''/'');
             s = join_sep (normalizeString (\<not> isAbsolute) [] (split_sep [] p))
         in if s = [] then (if isAbsolute then ''/'' else if trailingSeparator then ''./'' else ''.'')
            else (let s' = (if trailingSeparator then s @ ''/'' else s)
                  in if isAbsolute then CHR ''/'' # s' else s')))"

definition path_join :: "string list \<Rightarrow> string" where
  "path_join args =
     (let joined = join_sep (filter (\<lambda>a. a \<noteq> []) args)
      in if joined = [] then ''.'' else path_normalize joined)"

text \<open>
  \<^verbatim>\<open>path.resolve(...args)\<close> reads its arguments from the right until one is
  absolute; the working directory comes last.
\<close>

fun resolve_from :: "string list \<Rightarrow> string \<Rightarrow> string \<times> bool" where
  "resolve_from [] resolvedPath = (resolvedPath, False)"
| "resolve_from (p # ps) resolvedPath =
     (if p = [] then resolve_from ps resolvedPath
      else if path_isAbsolute p then (p @ CHR ''/'' # resolvedPath, True)
      else resolve_from ps (p @ CHR ''/'' # resolvedPath))"

definition path_resolve :: "string \<Rightarrow> string list \<Rightarrow> string" where
  "path_resolve cwd args =
     (case resolve_from (rev args @ [cwd]) [] of
        (resolvedPath, resolvedAbsolute) \<Rightarrow>
          (let s = join_sep (normalizeString (\<not> resolvedAbsolute) [] (split_sep [] resolvedPath))
           in if resolvedAbsolute then CHR ''/'' # s
              else if s \<noteq> [] then s else ''.''))"

fun strip_common :: "string list \<Rightarrow> string list \<Rightarrow> string list \<times> string list" where
  "strip_common (a # as) (b # bs) = (if a = b then strip_common as bs else (a # as, b # bs))"
| "strip_common as bs = (as, bs)"

definition path_relative :: "string \<Rightarrow> string \<Rightarrow> string \<Rightarrow> string" where
  "path_relative cwd from to =
     (let f = path_resolve cwd [from]; t = path_resolve cwd [to]
      in if f = t then []
         else (case strip_common (filter (\<lambda>s. s \<noteq> []) (split_sep [] f))
                                 (filter (\<lambda>s. s \<noteq> []) (split_sep [] t)) of
                 (up, down) \<Rightarrow> join_sep (map (\<lambda>s. ''..'') up @ down)))"

definition path_dirname :: "string \<Rightarrow> string" where
  "path_dirname p =
     (case p of
        [] \<Rightarrow> ''.''
      | c # cs \<Rightarrow>
          (let hasRoot = (c = CHR ''/'');
               r = dropWhile (\<lambda>x. x \<noteq> CHR ''/'') (dropWhile (\<lambda>x. x = CHR ''/'') (rev cs))
           in if r = [] then (if hasRoot then ''/'' else ''.'')
              else if hasRoot \<and> length r = 1 then ''//''
              else take (length r) p))"

definition startsWith :: "string \<Rightarrow> string \<Rightarrow> bool" where
  "startsWith s pre = (take (length pre) s = pre)"

subsection \<open>The process environment and the file store\<close>

text \<open>
  What the module reads from the process: \<^verbatim>\<open>os.homedir()\<close>,
  \<^verbatim>\<open>process.env['XDG_CONFIG_HOME']\<close>, \<^verbatim>\<open>process.cwd()\<close> and
  \<^verbatim>\<open>__dirname\<close>. The file store maps an absolute, normalised path to the bytes of
  the file there; a path is looked up after \<open>path_resolve\<close>, as the operating system
  does for a relative name. Writing always succeeds in this model.
\<close>

record process =
  homedir :: string
  XDG_CONFIG_HOME :: "string option"
  cwd :: string
  dirname :: string

type_synonym files = "string \<rightharpoonup> string"

definition existsSync :: "process \<Rightarrow> files \<Rightarrow> string \<Rightarrow> bool" where
  "existsSync pr fs p = (fs (path_resolve (cwd pr) [p]) \<noteq> None)"

definition readFileSync :: "process \<Rightarrow> files \<Rightarrow> string \<Rightarrow> string option" where
  "readFileSync pr fs p = fs (path_resolve (cwd pr) [p])"

definition writeFileSync :: "process \<Rightarrow> files \<Rightarrow> string \<Rightarrow> string \<Rightarrow> files" where
  "writeFileSync pr fs p data = fs(path_resolve (cwd pr) [p] \<mapsto> data)"

subsection \<open>Locating the configuration files\<close>

definition configNames :: "string list" where
  "configNames = [''angular.json'', ''.angular.json'']"

definition globalFileName :: string where
  "globalFileName = ''.angular-config.json''"

definition xdgConfigHome :: "process \<Rightarrow> string \<Rightarrow> string option \<Rightarrow> string" where
  "xdgConfigHome pr home configFile =
     (let p = (case or_else (XDG_CONFIG_HOME pr) None of
                 Some v \<Rightarrow> v
               | None \<Rightarrow> path_join [home, ''.config'', ''angular''])
      in case or_else configFile None of
           Some f \<Rightarrow> path_join [p, f]
         | None \<Rightarrow> p)"

definition globalFilePath :: "process \<Rightarrow> files \<Rightarrow> string option" where
  "globalFilePath pr fs =
     (let home = homedir pr
      in if \<not> truthy home then None
         else
           (let xdgConfig = xdgConfigHome pr home (Some globalFileName)
            in if existsSync pr fs xdgConfig then Some xdgConfig
               else
                 (let p = path_join [home, globalFileName]
                  in if existsSync pr fs p then Some p else None)))"

subsection \<open>Workspace documents\<close>

text \<open>
  A \<^verbatim>\<open>ProjectDefinitionCollection\<close> is a JavaScript \<^verbatim>\<open>Map\<close>: it is listed in the
  order of declaration and has one entry for each name. \<^verbatim>\<open>extensions\<close> is a
  record from key to JSON value.
\<close>

record ProjectDefinition =
  root :: string
  extensions :: "(string \<times> json) list"

record WorkspaceDefinition =
  ws_extensions :: "(string \<times> json) list"
  ws_projects :: "(string \<times> ProjectDefinition) list"

record AngularWorkspace =
  workspace :: WorkspaceDefinition
  filePath :: string

definition basePath :: "AngularWorkspace \<Rightarrow> string" where
  "basePath w = path_dirname (filePath w)"


subsection \<open>Selecting a project\<close>

definition isInside :: "process \<Rightarrow> AngularWorkspace \<Rightarrow> string \<Rightarrow> string \<Rightarrow> bool" where
  "isInside pr w base potential =
     (let absoluteBase = path_resolve (cwd pr) [basePath w, base];
          absolutePotential = path_resolve (cwd pr) [basePath w, potential];
          relativePotential = path_relative (cwd pr) absoluteBase absolutePotential
      in \<not> startsWith relativePotential ''..'' \<and> \<not> path_isAbsolute relativePotential)"

text \<open>
  \<^verbatim>\<open>.sort((a, b) => b[0].length - a[0].length)\<close>: a stable sort, longest root
  first.
\<close>

definition sort_by_depth :: "(string \<times> string) list \<Rightarrow> (string \<times> string) list" where
  "sort_by_depth ts = sort_key (\<lambda>t. - int (length (fst t))) ts"

text \<open>
  The filter that collects \<^verbatim>\<open>sameRoots\<close>: a tuple is kept when its root is already
  in \<^verbatim>\<open>found\<close>, otherwise its root is added to \<^verbatim>\<open>found\<close>.
\<close>

fun sameRoots :: "string list \<Rightarrow> (string \<times> string) list \<Rightarrow> (string \<times> string) list" where
  "sameRoots found [] = []"
| "sameRoots found (v # vs) =
     (if fst v \<notin> set found then sameRoots (fst v # found) vs
      else v # sameRoots found vs)"

text \<open>The tuples \<^verbatim>\<open>[project.root, name]\<close> of the projects that contain the location.\<close>

definition matching :: "process \<Rightarrow> AngularWorkspace \<Rightarrow> string \<Rightarrow> (string \<times> string) list" where
  "matching pr w location =
     filter (\<lambda>tuple. isInside pr w (fst tuple) location)
       (map (\<lambda>(name, project). (root project, name)) (ws_projects (workspace w)))"

definition getProjectByPath :: "process \<Rightarrow> AngularWorkspace \<Rightarrow> string \<Rightarrow> string option" where
  "getProjectByPath pr w location =
     (let projects = sort_by_depth (matching pr w location)
      in case projects of
           [] \<Rightarrow> None
         | first # others \<Rightarrow>
             if length projects > 1 \<and> length (sameRoots [] projects) > 0 then None
             else Some (snd first))"

definition getProjectByCwd :: "process \<Rightarrow> AngularWorkspace \<Rightarrow> string option" where
  "getProjectByCwd pr w =
     (case ws_projects (workspace w) of
        [only] \<Rightarrow> Some (fst only)
      | _ \<Rightarrow>
          (case or_else (getProjectByPath pr w (cwd pr)) None of
             Some project \<Rightarrow> Some project
           | None \<Rightarrow>
               (case map_of (ws_extensions (workspace w)) ''defaultProject'' of
                  Some (JStr defaultProject) \<Rightarrow>
                    if truthy defaultProject then Some defaultProject else None
                | _ \<Rightarrow> None)))"

subsection \<open>Walking up to the project configuration\<close>

text \<open>
  Modelled from the spec: \<^verbatim>\<open>findUp\<close> is imported from \<^verbatim>\<open>./find-up\<close>, which is not
  among the sources. The spec: starting at the start directory, at each directory
  level each candidate name is checked in order for existence and the first match is
  returned; with no match at a level the search moves to the parent directory and
  stops, with nothing found, at the filesystem root. The directory is held as its
  segments, the last one first.
\<close>

fun findUp_in :: "process \<Rightarrow> files \<Rightarrow> string list \<Rightarrow> string list \<Rightarrow> string option" where
  "findUp_in pr fs names [] = None"
| "findUp_in pr fs names (d # ds) =
     (let currentDir = CHR ''/'' # join_sep (rev (d # ds))
      in case find (existsSync pr fs) (map (\<lambda>name. path_join [currentDir, name]) names) of
           Some p \<Rightarrow> Some p
         | None \<Rightarrow> findUp_in pr fs names ds)"

definition findUp :: "process \<Rightarrow> files \<Rightarrow> string list \<Rightarrow> string \<Rightarrow> string option" where
  "findUp pr fs names from =
     findUp_in pr fs names
       (rev (filter (\<lambda>s. s \<noteq> []) (split_sep [] (path_resolve (cwd pr) [from]))))"

definition projectFilePath :: "process \<Rightarrow> files \<Rightarrow> string option \<Rightarrow> string option" where
  "projectFilePath pr fs projectPath =
     or_else (case or_else projectPath None of
                Some p \<Rightarrow> findUp pr fs configNames p
              | None \<Rightarrow> projectPath)
       (or_else (findUp pr fs configNames (cwd pr))
          (findUp pr fs configNames (dirname pr)))"

subsection \<open>Collaborators and errors\<close>

text \<open>
  The parsers of \<^verbatim>\<open>@angular-devkit/core\<close> are outside this repository and are
  parameters of the model: each takes the bytes of a file and returns \<open>None\<close> where
  the real function throws. \<open>parseJsonAst\<close> returns the value of the syntax tree,
  without its positions.
\<close>

record devkit =
  parseJson :: "string \<Rightarrow> json option"
  parseJsonAst :: "string \<Rightarrow> json option"
  readWorkspace :: "string \<Rightarrow> WorkspaceDefinition option"

datatype error =
    WorkspaceLoadError string
  | NoHomeDirectory
  | InvalidJsonFile string
  | JsonException
  | FileNotFound string

subsection \<open>\<^verbatim>\<open>JSON.stringify\<close>\<close>

text \<open>
  \<^verbatim>\<open>JSON.stringify(value, null, space)\<close> of the JavaScript runtime, on the JSON values
  of this model: \<open>gap\<close> is the indentation unit (empty for the compact form) and
  \<open>indent\<close> the current indentation.
\<close>

fun digits :: "nat \<Rightarrow> string" where
  "digits n =
     (if n < 10 then [''0123456789'' ! n]
      else digits (n div 10) @ [''0123456789'' ! (n mod 10)])"

declare digits.simps [simp del]

definition hex2 :: "nat \<Rightarrow> string" where
  "hex2 n = [''0123456789abcdef'' ! (n div 16 mod 16), ''0123456789abcdef'' ! (n mod 16)]"

definition quote_char :: "char \<Rightarrow> string" where
  "quote_char c =
     (if c = CHR 0x22 then [CHR 0x5C, CHR 0x22]
      else if c = CHR 0x5C then [CHR 0x5C, CHR 0x5C]
      else if c = CHR 0x08 then [CHR 0x5C, CHR ''b'']
      else if c = CHR 0x09 then [CHR 0x5C, CHR ''t'']
      else if c = CHR 0x0A then [CHR 0x5C, CHR ''n'']
      else if c = CHR 0x0C then [CHR 0x5C, CHR ''f'']
      else if c = CHR 0x0D then [CHR 0x5C, CHR ''r'']
      else if (of_char c :: nat) < 32 then [CHR 0x5C, CHR ''u'', CHR ''0'', CHR ''0''] @ hex2 (of_char c)
      else [c])"

definition quote :: "string \<Rightarrow> string" where
  "quote s = CHR 0x22 # concat (map quote_char s) @ [CHR 0x22]"

fun join_with :: "string \<Rightarrow> string list \<Rightarrow> string" where
  "join_with sep [] = []"
| "join_with sep [s] = s"
| "join_with sep (s # t # ss) = s @ sep @ join_with sep (t # ss)"

definition wrap :: "string \<Rightarrow> string \<Rightarrow> string \<Rightarrow> string \<Rightarrow> string list \<Rightarrow> string" where
  "wrap opening closing gap indent partial =
     (if partial = [] then opening @ closing
      else if gap = [] then opening @ join_with '','' partial @ closing
      else opening @ [CHR 0x0A] @ (indent @ gap)
             @ join_with ('','' @ [CHR 0x0A] @ (indent @ gap)) partial
             @ [CHR 0x0A] @ indent @ closing)"

fun str :: "string \<Rightarrow> string \<Rightarrow> json \<Rightarrow> string"
  and str_members :: "string \<Rightarrow> string \<Rightarrow> (string \<times> json) list \<Rightarrow> string list"
  and str_elements :: "string \<Rightarrow> string \<Rightarrow> json list \<Rightarrow> string list" where
  "str gap indent JNull = ''null''"
| "str gap indent (JBool b) = (if b then ''true'' else ''false'')"
| "str gap indent (JNum i) = (if i < 0 then CHR ''-'' # digits (nat (- i)) else digits (nat i))"
| "str gap indent (JStr s) = quote s"
| "str gap indent (JArr xs) = wrap ''['' '']'' gap indent (str_elements gap (indent @ gap) xs)"
| "str gap indent (JObj kvs) = wrap ''{'' ''}'' gap indent (str_members gap (indent @ gap) kvs)"
| "str_members gap indent [] = []"
| "str_members gap indent (kv # kvs) =
     (quote (fst kv) @ '':'' @ (if gap = [] then [] else '' '') @ str gap indent (snd kv))
       # str_members gap indent kvs"
| "str_elements gap indent [] = []"
| "str_elements gap indent (x # xs) = str gap indent x # str_elements gap indent xs"

definition JSON_stringify :: "json \<Rightarrow> nat \<Rightarrow> string" where
  "JSON_stringify v space = str (replicate (min space 10) CHR '' '') [] v"

subsection \<open>The workspace cache\<close>

datatype level = Local | Global

text \<open>
  \<^verbatim>\<open>cachedWorkspaces\<close> is a \<^verbatim>\<open>Map\<close> from level to a workspace or null: a level with no
  entry is \<open>None\<close>, a cached null is \<open>Some None\<close>.
\<close>

type_synonym cache = "level \<rightharpoonup> AngularWorkspace option"

definition getWorkspace ::
  "devkit \<Rightarrow> process \<Rightarrow> files \<Rightarrow> level \<Rightarrow> cache
     \<Rightarrow> (error + AngularWorkspace option) \<times> cache" where
  "getWorkspace dk pr fs lvl cachedWorkspaces =
     (case cachedWorkspaces lvl of
        Some cached \<Rightarrow> (Inr cached, cachedWorkspaces)
      | None \<Rightarrow>
          (case or_else (if lvl = Local then projectFilePath pr fs None
                         else globalFilePath pr fs) None of
             None \<Rightarrow> (Inr None, cachedWorkspaces(lvl \<mapsto> None))
           | Some configPath \<Rightarrow>
               (case Option.bind (readFileSync pr fs configPath) (readWorkspace dk) of
                  None \<Rightarrow> (Inl (WorkspaceLoadError configPath), cachedWorkspaces)
                | Some result \<Rightarrow>
                    (let w = \<lparr>workspace = result, filePath = configPath\<rparr>
                     in (Inr (Some w), cachedWorkspaces(lvl \<mapsto> Some w))))))"

subsection \<open>The raw global settings file\<close>




subsection \<open>The configured package manager\<close>


definition legacyPackageManager :: "json option \<Rightarrow> string option" where
  "legacyPackageManager legacy =
     (case obj_get legacy ''packageManager'' of
        Some (JStr v) \<Rightarrow> if truthy v \<and> v \<noteq> ''default'' then Some v else None
      | _ \<Rightarrow> None)"





subsection \<open>Migrating the legacy global file\<close>

definition legacy_cli :: "json option \<Rightarrow> (string \<times> json) list" where
  "legacy_cli legacy =
     (case legacyPackageManager legacy of
        Some v \<Rightarrow> [(''packageManager'', JStr v)]
      | None \<Rightarrow> [])
     @ (let defaults = obj_get legacy ''defaults''
        in if isJsonObject defaults \<and> isJsonObject (obj_get defaults ''schematics'') then
             (case obj_get (obj_get defaults ''schematics'') ''collection'' of
                Some (JStr v) \<Rightarrow> [(''defaultCollection'', JStr v)]
              | _ \<Rightarrow> [])
           else [])
     @ (let warnings = obj_get legacy ''warnings''
        in if isJsonObject warnings then
             (case obj_get warnings ''versionMismatch'' of
                Some (JBool b) \<Rightarrow> [(''warnings'', JObj [(''versionMismatch'', JBool b)])]
              | _ \<Rightarrow> [])
           else [])"

definition migrateLegacyGlobalConfig ::
  "devkit \<Rightarrow> process \<Rightarrow> files \<Rightarrow> (error + bool) \<times> files" where
  "migrateLegacyGlobalConfig dk pr fs =
     (let homeDir = homedir pr
      in if truthy homeDir then
           (let legacyGlobalConfigPath = path_join [homeDir, ''.angular-cli.json'']
            in if existsSync pr fs legacyGlobalConfigPath then
                 (case readFileSync pr fs legacyGlobalConfigPath of
                    None \<Rightarrow> (Inl (FileNotFound legacyGlobalConfigPath), fs)
                  | Some content \<Rightarrow>
                      (case parseJson dk content of
                         None \<Rightarrow> (Inl JsonException, fs)
                       | Some legacy \<Rightarrow>
                           if \<not> isJsonObject (Some legacy) then (Inr False, fs)
                           else
                             (let cli = legacy_cli (Some legacy)
                              in if length cli > 0 then
                                   (let globalPath = path_join [homeDir, globalFileName]
                                    in (Inr True,
                                        writeFileSync pr fs globalPath
                                          (JSON_stringify
                                             (JObj [(''version'', JNum 1), (''cli'', JObj cli)]) 2)))
                                 else (Inr False, fs))))
               else (Inr False, fs))
         else (Inr False, fs))"

subsection \<open>Schematic defaults\<close>





subsection \<open>Sequences of lookups\<close>

text \<open>
  The cache after a sequence of further \<^verbatim>\<open>getWorkspace\<close> calls, each with its own
  collaborators, process, file store and level. The calls run one after the other:
  a lookup is finished before the next one begins.
\<close>

fun later_lookups :: "(devkit \<times> process \<times> files \<times> level) list \<Rightarrow> cache \<Rightarrow> cache" where
  "later_lookups [] c = c"
| "later_lookups ((dk, pr, fs, lvl) # calls) c =
     later_lookups calls (snd (getWorkspace dk pr fs lvl c))"

subsection \<open>The specification's vocabulary\<close>

text \<open>
  The readings of the specification's words that the theorems below compare the code
  with. A value is \<^emph>\<open>present\<close> or \<^emph>\<open>defined\<close> by the JavaScript test the code
  applies: a string that is not empty.
\<close>

text \<open>The \<^verbatim>\<open>defaultProject\<close> extension value, when present and a string.\<close>

definition defaultProject_name :: "AngularWorkspace \<Rightarrow> string option" where
  "defaultProject_name w =
     (case map_of (ws_extensions (workspace w)) ''defaultProject'' of
        Some (JStr d) \<Rightarrow> if d \<noteq> [] then Some d else None
      | _ \<Rightarrow> None)"










subsection \<open>Sample environments\<close>

text \<open>
  Concrete processes, workspaces and collaborators, on which the functions above are
  evaluated. \<open>sample_parser\<close> stands for a JSON parser on a given list of documents:
  it returns the document whose compact serialisation is the input and rejects every
  other input.
\<close>

definition sample_process :: "string \<Rightarrow> string option \<Rightarrow> string \<Rightarrow> process" where
  "sample_process home xdg dir =
     \<lparr>homedir = home, XDG_CONFIG_HOME = xdg, cwd = dir, dirname = ''/cli''\<rparr>"

definition sample_project :: "string \<Rightarrow> (string \<times> json) list \<Rightarrow> ProjectDefinition" where
  "sample_project r ext = \<lparr>root = r, extensions = ext\<rparr>"

definition sample_definition ::
  "(string \<times> json) list \<Rightarrow> (string \<times> ProjectDefinition) list \<Rightarrow> WorkspaceDefinition" where
  "sample_definition ext ps = \<lparr>ws_extensions = ext, ws_projects = ps\<rparr>"

definition sample_workspace ::
  "(string \<times> json) list \<Rightarrow> (string \<times> ProjectDefinition) list \<Rightarrow> AngularWorkspace" where
  "sample_workspace ext ps =
     \<lparr>workspace = sample_definition ext ps, filePath = ''/w/angular.json''\<rparr>"

definition sample_parser :: "json list \<Rightarrow> string \<Rightarrow> json option" where
  "sample_parser docs s = find (\<lambda>v. JSON_stringify v 0 = s) docs"

definition sample_devkit :: "json list \<Rightarrow> (string \<times> WorkspaceDefinition) list \<Rightarrow> devkit" where
  "sample_devkit docs wss =
     \<lparr>parseJson = sample_parser docs, parseJsonAst = sample_parser docs,
      readWorkspace = map_of wss\<rparr>"

definition legacy_npm :: json where
  "legacy_npm = JObj [(''packageManager'', JStr ''npm'')]"



text \<open>
  A workspace with the two projects \<open>one\<close> (root \<open>a\<close>) and \<open>two\<close> (root \<open>b\<close>); a
  global document, a local document with one project, and a local document that
  sets nothing; the collaborators that read them, and a file store that holds the
  global file and a local file.
\<close>

definition two_projects :: "(string \<times> json) list \<Rightarrow> AngularWorkspace" where
  "two_projects ext =
     sample_workspace ext [(''one'', sample_project ''a'' []), (''two'', sample_project ''b'' [])]"

definition global_doc :: WorkspaceDefinition where
  "global_doc =
     sample_definition
       [(''cli'', JObj [(''packageManager'', JStr ''pnpm'')]),
        (''schematics'', JObj [(''c:s'', JObj [(''x'', JNum 1)])])] []"





section \<open>Project selection by path\<close>











section \<open>The global configuration path\<close>

text \<open>
  C2, the code at three inputs. With \<open>XDG_CONFIG_HOME = /x\<close> a file at
  \<open>/x/angular/.angular-config.json\<close> is not found and a file at
  \<open>/x/.angular-config.json\<close> is: the application directory is joined only when the
  variable is unset, where \<open>/h/.config/angular/.angular-config.json\<close> is found.
\<close>

theorem globalFilePath_override_has_no_app_directory:
  "globalFilePath (sample_process ''/h'' (Some ''/x'') ''/w'')
     [''/x/angular/.angular-config.json'' \<mapsto> ''{}''] = None \<and>
   globalFilePath (sample_process ''/h'' (Some ''/x'') ''/w'')
     [''/x/.angular-config.json'' \<mapsto> ''{}''] = Some ''/x/.angular-config.json'' \<and>
   globalFilePath (sample_process ''/h'' None ''/w'')
     [''/h/.config/angular/.angular-config.json'' \<mapsto> ''{}'']
       = Some ''/h/.config/angular/.angular-config.json''"
  by code_simp

section \<open>Nested project roots\<close>

subsection \<open>Resolved paths and the containment test\<close>















subsection \<open>The deeper of two roots\<close>





section \<open>The project of the working directory\<close>

text \<open>
  C6. A workspace with exactly one project gives that project, whatever the process
  and its working directory are. Any other workspace gives the result of the
  selection by path for the working directory when there is one, else the
  \<^verbatim>\<open>defaultProject\<close> extension value when present and a string, else null. Present
  is what the code tests: a name or value that is the empty string counts as none.
\<close>

theorem getProjectByCwd_cases:
  "(\<forall>name p. ws_projects (workspace w) = [(name, p)] \<longrightarrow> getProjectByCwd pr w = Some name) \<and>
   (length (ws_projects (workspace w)) \<noteq> 1 \<longrightarrow>
      getProjectByCwd pr w =
        (case getProjectByPath pr w (cwd pr) of
           Some project \<Rightarrow> if project \<noteq> [] then Some project else defaultProject_name w
         | None \<Rightarrow> defaultProject_name w))"
proof (intro conjI allI impI)
  fix name p assume "ws_projects (workspace w) = [(name, p)]"
  then show "getProjectByCwd pr w = Some name" by (simp add: getProjectByCwd_def)
next
  assume n: "length (ws_projects (workspace w)) \<noteq> 1"
  have d: "(case map_of (ws_extensions (workspace w)) ''defaultProject'' of
              Some (JStr defaultProject) \<Rightarrow>
                if truthy defaultProject then Some defaultProject else None
            | _ \<Rightarrow> None) = defaultProject_name w"
    by (simp add: defaultProject_name_def truthy_def split: option.splits json.splits)
  from n have g: "getProjectByCwd pr w =
      (case or_else (getProjectByPath pr w (cwd pr)) None of
         Some project \<Rightarrow> Some project
       | None \<Rightarrow> defaultProject_name w)"
    unfolding getProjectByCwd_def d
    by (cases "ws_projects (workspace w)"; cases "tl (ws_projects (workspace w))") auto
  show "getProjectByCwd pr w =
        (case getProjectByPath pr w (cwd pr) of
           Some project \<Rightarrow> if project \<noteq> [] then Some project else defaultProject_name w
         | None \<Rightarrow> defaultProject_name w)"
    unfolding g by (simp add: or_else_def truthy_def split: option.splits)
qed

text \<open>
  C6, instances: a single project is returned from a working directory outside the
  workspace; with two projects the selection by path, the default project and null
  are returned in turn.
\<close>

theorem getProjectByCwd_cases_witness:
  "getProjectByCwd (sample_process ''/h'' None ''/elsewhere'')
     (sample_workspace [] [(''only'', sample_project ''a'' [])]) = Some ''only''
   \<and> length (ws_projects (workspace (two_projects [(''defaultProject'', JStr ''two'')]))) \<noteq> 1
   \<and> getProjectByCwd (sample_process ''/h'' None ''/w/a/src'')
         (two_projects [(''defaultProject'', JStr ''two'')]) = Some ''one''
   \<and> getProjectByCwd (sample_process ''/h'' None ''/elsewhere'')
         (two_projects [(''defaultProject'', JStr ''two'')]) = Some ''two''
   \<and> getProjectByCwd (sample_process ''/h'' None ''/elsewhere'') (two_projects []) = None"
proof -
  let ?out = "sample_process ''/h'' None ''/elsewhere''"
  let ?in = "sample_process ''/h'' None ''/w/a/src''"
  let ?w1 = "sample_workspace [] [(''only'', sample_project ''a'' [])]"
  let ?w2 = "two_projects [(''defaultProject'', JStr ''two'')]"
  have p1: "ws_projects (workspace ?w1) = [(''only'', sample_project ''a'' [])]"
    by (simp add: sample_workspace_def sample_definition_def)
  have n2: "length (ws_projects (workspace (two_projects ext))) \<noteq> 1" for ext
    by (simp add: two_projects_def sample_workspace_def sample_definition_def)
  have s_in: "getProjectByPath ?in ?w2 (cwd ?in) = Some ''one''" by code_simp
  have s_out: "getProjectByPath ?out (two_projects ext) (cwd ?out) = None"
    if "ext = [(''defaultProject'', JStr ''two'')] \<or> ext = []" for ext
    using that by (elim disjE; hypsubst) code_simp+
  have d2: "defaultProject_name ?w2 = Some ''two''" by code_simp
  have d0: "defaultProject_name (two_projects []) = None" by code_simp
  from getProjectByCwd_cases [of ?w1 ?out] p1
  have 1: "getProjectByCwd ?out ?w1 = Some ''only''" by blast
  from getProjectByCwd_cases [of ?w2 ?in] n2 s_in
  have 2: "getProjectByCwd ?in ?w2 = Some ''one''" by simp
  from getProjectByCwd_cases [of ?w2 ?out] n2 s_out d2
  have 3: "getProjectByCwd ?out ?w2 = Some ''two''" by simp
  from getProjectByCwd_cases [of "two_projects []" ?out] n2 s_out d0
  have 4: "getProjectByCwd ?out (two_projects []) = None" by simp
  from 1 2 3 4 n2 show ?thesis by simp
qed

text \<open>
  C10. When the workspace does not have exactly one project, the selection by path
  gives null and \<^verbatim>\<open>defaultProject\<close> is a non-empty string, that string is returned:
  nothing asks whether it is the name of a declared project.
\<close>

theorem getProjectByCwd_default_unchecked:
  assumes "length (ws_projects (workspace w)) \<noteq> 1"
    and "getProjectByPath pr w (cwd pr) = None"
    and "map_of (ws_extensions (workspace w)) ''defaultProject'' = Some (JStr d)"
    and "d \<noteq> []"
  shows "getProjectByCwd pr w = Some d"
  using assms
  by (cases "ws_projects (workspace w)"; cases "tl (ws_projects (workspace w))")
     (auto simp: getProjectByCwd_def or_else_def truthy_def)

text \<open>C10, an instance: the default project \<open>ghost\<close> is returned and is not declared.\<close>

theorem getProjectByCwd_default_unchecked_witness:
  "''ghost'' \<notin> fst ` set (ws_projects (workspace (two_projects [(''defaultProject'', JStr ''ghost'')])))
   \<and> getProjectByCwd (sample_process ''/h'' None ''/elsewhere'')
        (two_projects [(''defaultProject'', JStr ''ghost'')]) = Some ''ghost''"
proof -
  let ?pr = "sample_process ''/h'' None ''/elsewhere''"
  let ?w = "two_projects [(''defaultProject'', JStr ''ghost'')]"
  have n: "length (ws_projects (workspace ?w)) \<noteq> 1"
    by (simp add: two_projects_def sample_workspace_def sample_definition_def)
  have s: "getProjectByPath ?pr ?w (cwd ?pr) = None" by code_simp
  have d: "map_of (ws_extensions (workspace ?w)) ''defaultProject'' = Some (JStr ''ghost'')"
    by (simp add: two_projects_def sample_workspace_def sample_definition_def)
  have g: "''ghost'' \<notin> fst ` set (ws_projects (workspace ?w))"
    by (simp add: two_projects_def sample_workspace_def sample_definition_def)
  from getProjectByCwd_default_unchecked [OF n s d] g show ?thesis by simp
qed

section \<open>The workspace cache\<close>

lemma getWorkspace_keeps_entry:
  "c lvl = Some r \<Longrightarrow> snd (getWorkspace dk pr fs lvl' c) lvl = Some r"
  by (auto simp: getWorkspace_def Let_def split: option.splits)

lemma later_lookups_keep_entry:
  "c lvl = Some r \<Longrightarrow> later_lookups calls c lvl = Some r"
proof (induction calls arbitrary: c)
  case Nil
  then show ?case by simp
next
  case (Cons call calls)
  obtain dk pr fs lvl' where call: "call = (dk, pr, fs, lvl')" by (cases call) auto
  from Cons.prems have "snd (getWorkspace dk pr fs lvl' c) lvl = Some r"
    by (rule getWorkspace_keeps_entry)
  then show ?case unfolding call later_lookups.simps by (rule Cons.IH)
qed

lemma getWorkspace_cached:
  "c lvl = Some r \<Longrightarrow> getWorkspace dk pr fs lvl c = (Inr r, c)"
  by (simp add: getWorkspace_def)

lemma getWorkspace_resolved_entry:
  "getWorkspace dk pr fs lvl c = (Inr r, c') \<Longrightarrow> c' lvl = Some r"
  by (auto simp: getWorkspace_def Let_def split: option.splits)

text \<open>
  C8. Once a lookup of a level has returned, with a workspace or with null, the cache
  holds that result for the level through every sequence of later lookups, and a
  later lookup of the level returns it and leaves the cache as it is, whatever the
  file store, the process and the collaborators are then: nothing is read again and
  the entry is never written a second time.
\<close>

theorem getWorkspace_first_lookup_wins:
  assumes "getWorkspace dk pr fs lvl c = (Inr r, c')"
  shows "getWorkspace dk' pr' fs' lvl (later_lookups calls c') = (Inr r, later_lookups calls c')
       \<and> later_lookups calls c' lvl = Some r"
proof -
  from assms have "c' lvl = Some r" by (rule getWorkspace_resolved_entry)
  then have "later_lookups calls c' lvl = Some r" by (rule later_lookups_keep_entry)
  then show ?thesis by (simp add: getWorkspace_cached)
qed


text \<open>
  C8, an instance: the global level was resolved to null in a process without a home
  directory. A lookup with a home directory and a global file, which a fresh cache
  would load, still returns null, also after a lookup of the local level.
\<close>

theorem getWorkspace_first_lookup_wins_witness:
  "fst (getWorkspace (sample_devkit [] [(''G'', global_doc)]) (sample_process ''/h'' None ''/w'')
          [''/h/.angular-config.json'' \<mapsto> ''G''] Global Map.empty)
     = Inr (Some \<lparr>workspace = global_doc, filePath = ''/h/.angular-config.json''\<rparr>)
   \<and> getWorkspace (sample_devkit [] [(''G'', global_doc)]) (sample_process ''/h'' None ''/w'')
          [''/h/.angular-config.json'' \<mapsto> ''G''] Global
          (later_lookups
             [(sample_devkit [] [(''G'', global_doc)], sample_process ''/h'' None ''/w'',
               [''/h/.angular-config.json'' \<mapsto> ''G''], Local)]
             [Global \<mapsto> None])
     = (Inr None,
        later_lookups
          [(sample_devkit [] [(''G'', global_doc)], sample_process ''/h'' None ''/w'',
            [''/h/.angular-config.json'' \<mapsto> ''G''], Local)]
          [Global \<mapsto> None])"
proof -
  let ?dk = "sample_devkit [] [(''G'', global_doc)]"
  let ?pr = "sample_process ''/h'' None ''/w''"
  let ?fs = "[''/h/.angular-config.json'' \<mapsto> ''G'']"
  have fresh: "fst (getWorkspace ?dk ?pr ?fs Global Map.empty)
     = Inr (Some \<lparr>workspace = global_doc, filePath = ''/h/.angular-config.json''\<rparr>)"
    by code_simp
  have "globalFilePath (sample_process [] None ''/w'') Map.empty = None" by code_simp
  then have first: "getWorkspace ?dk (sample_process [] None ''/w'') Map.empty Global Map.empty
      = (Inr None, [Global \<mapsto> None])"
    by (simp add: getWorkspace_def or_else_def)
  from getWorkspace_first_lookup_wins [OF first, of ?dk ?pr ?fs "[(?dk, ?pr, ?fs, Local)]"] fresh
  show ?thesis by simp
qed


section \<open>Migration of the legacy global file\<close>

lemma existsSync_read: "existsSync pr fs p \<longleftrightarrow> readFileSync pr fs p \<noteq> None"
  by (simp add: existsSync_def readFileSync_def)

lemma keys_default: "fst ` set (case v of Some (JStr s) \<Rightarrow> [(''defaultCollection'', JStr s)] | _ \<Rightarrow> [])
    \<subseteq> {''defaultCollection''}"
  by (cases v; simp; cases "the v"; simp)
lemma keys_warn: "fst ` set (case v of Some (JBool b) \<Rightarrow> [(''warnings'', JObj [(''versionMismatch'', JBool b)])] | _ \<Rightarrow> [])
    \<subseteq> {''warnings''}"
  by (cases v; simp; cases "the v"; simp)
lemma legacy_cli_without_packageManager:
  assumes "legacyPackageManager legacy = None"
  shows "''packageManager'' \<notin> fst ` set (legacy_cli legacy)"
proof -
  obtain B C where l: "legacy_cli legacy = B @ C"
    and B: "fst ` set B \<subseteq> {''defaultCollection''}" and C: "fst ` set C \<subseteq> {''warnings''}"
  proof
    show "legacy_cli legacy = 
      (let defaults = obj_get legacy ''defaults''
        in if isJsonObject defaults \<and> isJsonObject (obj_get defaults ''schematics'') then
             (case obj_get (obj_get defaults ''schematics'') ''collection'' of
                Some (JStr v) \<Rightarrow> [(''defaultCollection'', JStr v)]
              | _ \<Rightarrow> [])
           else [])
     @ (let warnings = obj_get legacy ''warnings''
        in if isJsonObject warnings then
             (case obj_get warnings ''versionMismatch'' of
                Some (JBool b) \<Rightarrow> [(''warnings'', JObj [(''versionMismatch'', JBool b)])]
              | _ \<Rightarrow> [])
           else [])"
      unfolding legacy_cli_def assms by simp
    show "fst ` set (let defaults = obj_get legacy ''defaults''
        in if isJsonObject defaults \<and> isJsonObject (obj_get defaults ''schematics'') then
             (case obj_get (obj_get defaults ''schematics'') ''collection'' of
                Some (JStr v) \<Rightarrow> [(''defaultCollection'', JStr v)]
              | _ \<Rightarrow> [])
           else []) \<subseteq> {''defaultCollection''}"
      unfolding Let_def using keys_default by (simp only: split: if_split) simp
    show "fst ` set (let warnings = obj_get legacy ''warnings''
        in if isJsonObject warnings then
             (case obj_get warnings ''versionMismatch'' of
                Some (JBool b) \<Rightarrow> [(''warnings'', JObj [(''versionMismatch'', JBool b)])]
              | _ \<Rightarrow> [])
           else []) \<subseteq> {''warnings''}"
      unfolding Let_def using keys_warn by (simp only: split: if_split) simp
  qed
  have "''packageManager'' \<notin> fst ` set B" using B by auto
  moreover have "''packageManager'' \<notin> fst ` set C" using C by auto
  ultimately show ?thesis unfolding l by (simp add: image_Un)
qed

text \<open>
  C3, as the code has it. The migration returns true exactly when there is a home
  directory, the legacy file exists, it parses to a JSON object and the extracted
  \<^verbatim>\<open>cli\<close> object has a key; it then writes \<^verbatim>\<open>{version: 1, cli}\<close> with an indentation
  of two. In every other case the file store is unchanged. A legacy file that does
  not parse makes the call throw the parser's exception, and that is the only
  exception. A \<^verbatim>\<open>packageManager\<close> that is the string \<open>default\<close> is not extracted.
\<close>

theorem migrateLegacyGlobalConfig_outcomes:
  "(fst (migrateLegacyGlobalConfig dk pr fs) = Inr True \<longleftrightarrow>
      truthy (homedir pr) \<and>
      (\<exists>content kvs.
         readFileSync pr fs (path_join [homedir pr, ''.angular-cli.json'']) = Some content \<and>
         parseJson dk content = Some (JObj kvs) \<and> legacy_cli (Some (JObj kvs)) \<noteq> []))
   \<and> (\<forall>content kvs.
         truthy (homedir pr) \<and>
         readFileSync pr fs (path_join [homedir pr, ''.angular-cli.json'']) = Some content \<and>
         parseJson dk content = Some (JObj kvs) \<and> legacy_cli (Some (JObj kvs)) \<noteq> [] \<longrightarrow>
         snd (migrateLegacyGlobalConfig dk pr fs) =
           writeFileSync pr fs (path_join [homedir pr, globalFileName])
             (JSON_stringify
                (JObj [(''version'', JNum 1), (''cli'', JObj (legacy_cli (Some (JObj kvs))))]) 2))
   \<and> (fst (migrateLegacyGlobalConfig dk pr fs) \<noteq> Inr True \<longrightarrow>
         snd (migrateLegacyGlobalConfig dk pr fs) = fs)
   \<and> (fst (migrateLegacyGlobalConfig dk pr fs) = Inl JsonException \<longleftrightarrow>
         truthy (homedir pr) \<and>
         (\<exists>content.
            readFileSync pr fs (path_join [homedir pr, ''.angular-cli.json'']) = Some content \<and>
            parseJson dk content = None))
   \<and> (\<forall>e. fst (migrateLegacyGlobalConfig dk pr fs) = Inl e \<longrightarrow> e = JsonException)
   \<and> (\<forall>legacy. obj_get legacy ''packageManager'' = Some (JStr ''default'') \<longrightarrow>
         ''packageManager'' \<notin> fst ` set (legacy_cli legacy))"
proof -
  let ?lp = "path_join [homedir pr, ''.angular-cli.json'']"
  let ?m = "migrateLegacyGlobalConfig dk pr fs"
  have pm: "''packageManager'' \<notin> fst ` set (legacy_cli legacy)"
    if "obj_get legacy ''packageManager'' = Some (JStr ''default'')" for legacy
  proof -
    from that have "legacyPackageManager legacy = None"
      by (simp add: legacyPackageManager_def)
    then show ?thesis by (rule legacy_cli_without_packageManager)
  qed
  consider (nohome) "\<not> truthy (homedir pr)"
    | (absent) "truthy (homedir pr)" "readFileSync pr fs ?lp = None"
    | (bad) content where "truthy (homedir pr)" "readFileSync pr fs ?lp = Some content"
        "parseJson dk content = None"
    | (nonobj) content v where "truthy (homedir pr)" "readFileSync pr fs ?lp = Some content"
        "parseJson dk content = Some v" "\<not> isJsonObject (Some v)"
    | (obj) content kvs where "truthy (homedir pr)" "readFileSync pr fs ?lp = Some content"
        "parseJson dk content = Some (JObj kvs)"
  proof -
    show ?thesis
    proof (cases "truthy (homedir pr)")
      case False then show ?thesis using nohome by blast
    next
      case h: True
      show ?thesis
      proof (cases "readFileSync pr fs ?lp")
        case None with h show ?thesis using absent by blast
      next
        case (Some content)
        show ?thesis
        proof (cases "parseJson dk content")
          case None with h Some show ?thesis using bad by blast
        next
          case v: (Some v)
          show ?thesis
          proof (cases v)
            case (JObj kvs) with h Some v show ?thesis using obj by blast
          qed (use h Some v nonobj in \<open>auto simp: isJsonObject_def\<close>)
        qed
      qed
    qed
  qed
  then have main: "(fst ?m = Inr True \<longleftrightarrow>
      truthy (homedir pr) \<and>
      (\<exists>content kvs. readFileSync pr fs ?lp = Some content \<and>
         parseJson dk content = Some (JObj kvs) \<and> legacy_cli (Some (JObj kvs)) \<noteq> []))
   \<and> (\<forall>content kvs.
         truthy (homedir pr) \<and> readFileSync pr fs ?lp = Some content \<and>
         parseJson dk content = Some (JObj kvs) \<and> legacy_cli (Some (JObj kvs)) \<noteq> [] \<longrightarrow>
         snd ?m =
           writeFileSync pr fs (path_join [homedir pr, globalFileName])
             (JSON_stringify
                (JObj [(''version'', JNum 1), (''cli'', JObj (legacy_cli (Some (JObj kvs))))]) 2))
   \<and> (fst ?m \<noteq> Inr True \<longrightarrow> snd ?m = fs)
   \<and> (fst ?m = Inl JsonException \<longleftrightarrow>
         truthy (homedir pr) \<and>
         (\<exists>content. readFileSync pr fs ?lp = Some content \<and> parseJson dk content = None))
   \<and> (\<forall>e. fst ?m = Inl e \<longrightarrow> e = JsonException)"
  proof cases
    case nohome
    then have "?m = (Inr False, fs)" by (simp add: migrateLegacyGlobalConfig_def)
    with nohome show ?thesis by simp
  next
    case absent
    then have "?m = (Inr False, fs)"
      by (simp add: migrateLegacyGlobalConfig_def existsSync_read)
    with absent show ?thesis by simp
  next
    case bad
    then have "?m = (Inl JsonException, fs)"
      by (simp add: migrateLegacyGlobalConfig_def existsSync_read)
    with bad show ?thesis by simp
  next
    case nonobj
    then have "?m = (Inr False, fs)"
      by (simp add: migrateLegacyGlobalConfig_def existsSync_read)
    moreover from nonobj have "\<And>kvs. v \<noteq> JObj kvs" by (auto simp: isJsonObject_def)
    ultimately show ?thesis using nonobj by simp
  next
    case obj
    show ?thesis
    proof (cases "legacy_cli (Some (JObj kvs)) = []")
      case True
      with obj have "?m = (Inr False, fs)"
        by (simp add: migrateLegacyGlobalConfig_def existsSync_read isJsonObject_def)
      with obj True show ?thesis by simp
    next
      case False
      with obj have "?m = (Inr True,
          writeFileSync pr fs (path_join [homedir pr, globalFileName])
             (JSON_stringify
                (JObj [(''version'', JNum 1), (''cli'', JObj (legacy_cli (Some (JObj kvs))))]) 2))"
        by (simp add: migrateLegacyGlobalConfig_def existsSync_read isJsonObject_def Let_def)
      with obj False show ?thesis by simp
    qed
  qed
  from main pm show ?thesis by blast
qed


text \<open>
  C3, an instance: the legacy file \<^verbatim>\<open>{"packageManager":"npm"}\<close> is migrated and the
  new file holds the version and the package manager.
\<close>

theorem migrateLegacyGlobalConfig_outcomes_witness:
  "fst (migrateLegacyGlobalConfig (sample_devkit [legacy_npm] []) (sample_process ''/h'' None ''/w'')
     [''/h/.angular-cli.json'' \<mapsto> JSON_stringify legacy_npm 0]) = Inr True
  \<and> snd (migrateLegacyGlobalConfig (sample_devkit [legacy_npm] []) (sample_process ''/h'' None ''/w'')
     [''/h/.angular-cli.json'' \<mapsto> JSON_stringify legacy_npm 0]) ''/h/.angular-config.json''
     = Some (JSON_stringify (JObj [(''version'', JNum 1), (''cli'', JObj [(''packageManager'', JStr ''npm'')])]) 2)"
proof -
  let ?dk = "sample_devkit [legacy_npm] []"
  let ?pr = "sample_process ''/h'' None ''/w''"
  let ?fs = "[''/h/.angular-cli.json'' \<mapsto> JSON_stringify legacy_npm 0]"
  have h: "truthy (homedir ?pr)" by code_simp
  have r: "readFileSync ?pr ?fs (path_join [homedir ?pr, ''.angular-cli.json''])
             = Some (JSON_stringify legacy_npm 0)" by code_simp
  have p: "parseJson ?dk (JSON_stringify legacy_npm 0) = Some (JObj [(''packageManager'', JStr ''npm'')])"
    by code_simp
  have c: "legacy_cli (Some (JObj [(''packageManager'', JStr ''npm'')])) = [(''packageManager'', JStr ''npm'')]"
    by code_simp
  have g: "path_resolve (cwd ?pr) [path_join [homedir ?pr, globalFileName]] = ''/h/.angular-config.json''"
    by code_simp
  note m = migrateLegacyGlobalConfig_outcomes [of ?dk ?pr ?fs]
  from m h r p c have 1: "fst (migrateLegacyGlobalConfig ?dk ?pr ?fs) = Inr True" by simp
  from m h r p c have "snd (migrateLegacyGlobalConfig ?dk ?pr ?fs) =
     writeFileSync ?pr ?fs (path_join [homedir ?pr, globalFileName])
       (JSON_stringify (JObj [(''version'', JNum 1), (''cli'', JObj [(''packageManager'', JStr ''npm'')])]) 2)"
    by simp
  then have 2: "snd (migrateLegacyGlobalConfig ?dk ?pr ?fs) ''/h/.angular-config.json''
     = Some (JSON_stringify (JObj [(''version'', JNum 1), (''cli'', JObj [(''packageManager'', JStr ''npm'')])]) 2)"
    by (simp add: writeFileSync_def g)
  from 1 2 show ?thesis by simp
qed

text \<open>
  C3, the claim as stated fails: with the malformed legacy file \<^verbatim>\<open>{\<close> the call does
  not return false, it throws.
\<close>

theorem migrateLegacyGlobalConfig_malformed_counterexample:
  "fst (migrateLegacyGlobalConfig (sample_devkit [legacy_npm] []) (sample_process ''/h'' None ''/w'')
     [''/h/.angular-cli.json'' \<mapsto> ''{'']) = Inl JsonException"
  by code_simp

section \<open>Writing and reading back the global settings\<close>







section \<open>The configured package manager\<close>





section \<open>Schematic defaults\<close>










end
